theory Spec2Isabelle
  imports Main "HOL-Library.Sublist" "HOL-Library.List_Lexorder" "HOL-Library.Char_ord"
begin

section \<open>Text primitives\<close>

text \<open>
  Text is a list of characters, one \<^typ>\<open>char\<close> per code point of the Python string.
  A \<^typ>\<open>char\<close> has 256 values, so the texts of the model are those of code points
  below 256; the tests on characters (white space, line boundaries, digits, lower case)
  are Python's on that range.
  The library operations used by \<^verbatim>\<open>build_page.py\<close> are written out on lists:
  \<^verbatim>\<open>html.escape(text, quote=True)\<close>, \<^verbatim>\<open>str.startswith(prefix, i)\<close>,
  \<^verbatim>\<open>str.find(sub, start)\<close>, slicing and \<^verbatim>\<open>str.strip()\<close>.
\<close>

definition esc_char :: "char \<Rightarrow> string" where
  \<open>esc_char c =
     (if c = CHR ''&'' then ''&amp;''
      else if c = CHR ''<'' then ''&lt;''
      else if c = CHR ''>'' then ''&gt;''
      else if c = CHR 0x22 then ''&quot;''
      else if c = CHR 0x27 then ''&#x27;''
      else [c])\<close>

definition esc :: "string \<Rightarrow> string" where
  "esc text = concat (map esc_char text)"

definition startswith :: "string \<Rightarrow> string \<Rightarrow> nat \<Rightarrow> bool" where
  "startswith text p i = (take (length p) (drop i text) = p)"

fun find_in :: "string \<Rightarrow> string \<Rightarrow> nat option" where
  "find_in sub [] = (if sub = [] then Some 0 else None)"
| "find_in sub (c # cs) =
     (if take (length sub) (c # cs) = sub then Some 0
      else map_option Suc (find_in sub cs))"

definition str_find :: "string \<Rightarrow> string \<Rightarrow> nat \<Rightarrow> nat option" where
  "str_find text sub start =
     (if start \<le> length text
      then map_option (\<lambda>k. start + k) (find_in sub (drop start text))
      else None)"

definition slice :: "string \<Rightarrow> nat \<Rightarrow> nat \<Rightarrow> string" where
  "slice text a b = take (b - a) (drop a text)"

definition is_space :: "char \<Rightarrow> bool" where
  "is_space c =
     (of_char c \<in> {9, 10, 11, 12, 13, 28, 29, 30, 31, 32, 133, 160 :: nat})"

definition strip :: "string \<Rightarrow> string" where
  "strip s = rev (dropWhile is_space (rev (dropWhile is_space s)))"

section \<open>The inline markup renderer\<close>

text \<open>
  \<^verbatim>\<open>re.match(r'<link:"([^"]+)"=([^>]+)>', s)\<close>: both groups are negated classes
  followed by the very character they exclude, so the greedy run is the only candidate.
  The result is group 1, group 2 and the length of the whole match.
\<close>

definition link_match :: "string \<Rightarrow> (string \<times> string \<times> nat) option" where
  \<open>link_match s =
     (if take 7 s = ''<link:"'' then
        (let r1 = drop 7 s;
             g1 = takeWhile (\<lambda>c. c \<noteq> CHR 0x22) r1;
             r2 = drop (length g1) r1
         in if g1 \<noteq> [] \<and> take 2 r2 = ''"='' then
              (let r3 = drop 2 r2;
                   g2 = takeWhile (\<lambda>c. c \<noteq> CHR ''>'') r3;
                   r4 = drop (length g2) r3
               in if g2 \<noteq> [] \<and> take 1 r4 = ''>''
                  then Some (g1, g2, 7 + length g1 + 2 + length g2 + 1)
                  else None)
            else None)
      else None)\<close>

definition anchor :: "string \<Rightarrow> string \<Rightarrow> string" where
  \<open>anchor url link_text =
     ''<a href="'' @ url @ ''" target="_blank" rel="noopener">'' @ link_text @ ''</a>''\<close>

definition strong :: "string \<Rightarrow> string" where
  "strong inner = ''<strong>'' @ inner @ ''</strong>''"

text \<open>The three marker tests of the loop body, in the order the loop tries them.\<close>

definition link_at :: "string \<Rightarrow> bool \<Rightarrow> nat \<Rightarrow> (string \<times> string \<times> nat) option" where
  "link_at text allow_links i =
     (if allow_links \<and> startswith text ''<link:'' i then link_match (drop i text) else None)"

definition bold2_at :: "string \<Rightarrow> nat \<Rightarrow> nat option" where
  "bold2_at text i =
     (if startswith text ''**'' i then str_find text ''**'' (i + 2) else None)"

definition bold1_at :: "string \<Rightarrow> nat \<Rightarrow> nat option" where
  "bold1_at text i =
     (if text ! i = CHR ''*'' then str_find text ''*'' (i + 1) else None)"

lemma link_match_bounds:
  assumes "link_match s = Some (g1, g2, n)"
  shows "length g1 < length s" and "0 < n" and "n \<le> length s"
    and "n = 10 + length g1 + length g2"
proof -
  let ?r1 = "drop 7 s"
  let ?r2 = "drop (length g1) ?r1"
  let ?r3 = "drop 2 ?r2"
  let ?r4 = "drop (length g2) ?r3"
  from assms have h7: "take 7 s = ''<link:\"''"
    by (auto simp: link_match_def Let_def split: if_splits)
  from assms have g1: "g1 = takeWhile (\<lambda>c. c \<noteq> CHR 0x22) ?r1"
    by (auto simp: link_match_def Let_def split: if_splits)
  from assms g1 have h2: "take 2 ?r2 = ''\"=''"
    by (auto simp: link_match_def Let_def split: if_splits)
  from assms g1 have g2: "g2 = takeWhile (\<lambda>c. c \<noteq> CHR ''>'') ?r3"
    by (auto simp: link_match_def Let_def split: if_splits)
  from assms g1 g2 have h1: "take 1 ?r4 = ''>''"
    by (auto simp: link_match_def Let_def split: if_splits)
  from assms g1 g2 show n: "n = 10 + length g1 + length g2"
    by (auto simp: link_match_def Let_def split: if_splits)
  from h7 have "length (take 7 s) = 7"
    by simp
  then have l7: "7 \<le> length s"
    by simp
  from h1 have "1 \<le> length ?r4"
    by (cases ?r4) auto
  then have "length g2 + 1 \<le> length ?r3" by simp
  moreover from h2 have "2 \<le> length ?r2"
    by (cases ?r2; cases "tl ?r2") auto
  ultimately have "length g1 + length g2 + 3 \<le> length ?r1" by simp
  with l7 have tot: "10 + length g1 + length g2 \<le> length s" by simp
  with n show "n \<le> length s" by simp
  from tot show "length g1 < length s" by simp
  from n show "0 < n" by simp
qed

lemma find_in_bound: "find_in sub s = Some k \<Longrightarrow> k + length sub \<le> length s"
proof (induction s arbitrary: k)
  case Nil
  then show ?case by (simp split: if_splits)
next
  case (Cons c cs)
  show ?case
  proof (cases "take (length sub) (c # cs) = sub")
    case True
    then have "length (take (length sub) (c # cs)) = length sub" by simp
    then have "length sub \<le> length (c # cs)" by simp
    moreover from True Cons.prems have "k = 0" by simp
    ultimately show ?thesis by simp
  next
    case False
    with Cons.prems obtain j where "find_in sub cs = Some j" and "k = Suc j"
      by auto
    with Cons.IH show ?thesis by fastforce
  qed
qed

lemma str_find_bounds:
  assumes "str_find text sub start = Some e"
  shows "start \<le> e" and "e + length sub \<le> length text"
proof -
  from assms obtain k where le: "start \<le> length text"
    and k: "find_in sub (drop start text) = Some k" and e: "e = start + k"
    by (auto simp: str_find_def split: if_splits)
  from e show "start \<le> e" by simp
  from find_in_bound [OF k] le e show "e + length sub \<le> length text" by simp
qed

lemma link_at_bounds:
  assumes "link_at text allow_links i = Some (g1, g2, n)"
  shows "length g1 < length text - i" and "0 < n" and "i + n \<le> length text"
proof -
  from assms have m: "link_match (drop i text) = Some (g1, g2, n)"
    by (simp add: link_at_def split: if_splits)
  from link_match_bounds(1) [OF m] show "length g1 < length text - i" by simp
  from link_match_bounds(2) [OF m] show "0 < n" .
  from link_match_bounds(3) [OF m] have "n \<le> length text - i" by simp
  moreover from link_match_bounds(1) [OF m] have "i < length text" by simp
  ultimately show "i + n \<le> length text" by simp
qed

lemma bold2_at_bounds:
  assumes "bold2_at text i = Some e"
  shows "i + 2 \<le> e" and "e + 2 \<le> length text"
proof -
  from assms have f: "str_find text ''**'' (i + 2) = Some e"
    by (simp add: bold2_at_def split: if_splits)
  from str_find_bounds(1) [OF f] show "i + 2 \<le> e" .
  from str_find_bounds(2) [OF f] show "e + 2 \<le> length text" by simp
qed

lemma bold1_at_bounds:
  assumes "bold1_at text i = Some e"
  shows "i + 1 \<le> e" and "e + 1 \<le> length text"
proof -
  from assms have f: "str_find text ''*'' (i + 1) = Some e"
    by (simp add: bold1_at_def split: if_splits)
  from str_find_bounds(1) [OF f] show "i + 1 \<le> e" .
  from str_find_bounds(2) [OF f] show "e + 1 \<le> length text" by simp
qed

lemma slice_length: "length (slice text a b) \<le> b - a"
  by (simp add: slice_def)

text \<open>
  \<^verbatim>\<open>render_inline\<close>: the \<^verbatim>\<open>while i < len(text)\<close> loop, as a function of the index
  \<open>i\<close>. The list \<^verbatim>\<open>out\<close> is only appended to and joined at the end, so the function
  returns the text produced from position \<open>i\<close> on. Each \<^verbatim>\<open>continue\<close> is the call at
  the new index; each nested \<^verbatim>\<open>render_inline(...)\<close> is the call at index 0 of the
  inner text.
\<close>

function render_from :: "string \<Rightarrow> bool \<Rightarrow> nat \<Rightarrow> string" where
  "render_from text allow_links i =
     (if i < length text then
        (case link_at text allow_links i of
           Some (g1, g2, n) \<Rightarrow>
             anchor (esc (strip g2)) (render_from g1 False 0)
               @ render_from text allow_links (i + n)
         | None \<Rightarrow>
            (case bold2_at text i of
               Some e \<Rightarrow>
                 strong (render_from (slice text (i + 2) e) allow_links 0)
                   @ render_from text allow_links (e + 2)
             | None \<Rightarrow>
                (case bold1_at text i of
                   Some e \<Rightarrow>
                     strong (render_from (slice text (i + 1) e) allow_links 0)
                       @ render_from text allow_links (e + 1)
                 | None \<Rightarrow> esc [text ! i] @ render_from text allow_links (i + 1))))
      else [])"
  by pat_completeness auto
termination
proof (relation "measure (\<lambda>(tx, allow_links, i). length tx - i)")
  show "wf (measure (\<lambda>(tx, allow_links, i). length tx - i))" by simp
next
  fix tx :: string and allow_links :: bool and i x2 g1 y g2 n
  assume "i < length tx" and "link_at tx allow_links i = Some x2"
    and "(g1, y) = x2" and "(g2, n) = y"
  then have "link_at tx allow_links i = Some (g1, g2, n)" by simp
  from link_at_bounds(1) [OF this]
  show "((g1, False, 0), tx, allow_links, i)
      \<in> measure (\<lambda>(tx, allow_links, i). length tx - i)" by simp
next
  fix tx :: string and allow_links :: bool and i x2 g1 y g2 n
  assume "i < length tx" and "link_at tx allow_links i = Some x2"
    and "(g1, y) = x2" and "(g2, n) = y"
  then have "link_at tx allow_links i = Some (g1, g2, n)" by simp
  from link_at_bounds(2,3) [OF this]
  show "((tx, allow_links, i + n), tx, allow_links, i)
      \<in> measure (\<lambda>(tx, allow_links, i). length tx - i)" by simp
next
  fix tx :: string and allow_links :: bool and i e
  assume "i < length tx" and "bold2_at tx i = Some e"
  with bold2_at_bounds [of tx i e] slice_length [of tx "i + 2" e]
  show "((slice tx (i + 2) e, allow_links, 0), tx, allow_links, i)
      \<in> measure (\<lambda>(tx, allow_links, i). length tx - i)" by simp
next
  fix tx :: string and allow_links :: bool and i e
  assume "i < length tx" and "bold2_at tx i = Some e"
  with bold2_at_bounds [of tx i e]
  show "((tx, allow_links, e + 2), tx, allow_links, i)
      \<in> measure (\<lambda>(tx, allow_links, i). length tx - i)" by simp
next
  fix tx :: string and allow_links :: bool and i e
  assume "i < length tx" and "bold1_at tx i = Some e"
  with bold1_at_bounds [of tx i e] slice_length [of tx "i + 1" e]
  show "((slice tx (i + 1) e, allow_links, 0), tx, allow_links, i)
      \<in> measure (\<lambda>(tx, allow_links, i). length tx - i)" by simp
next
  fix tx :: string and allow_links :: bool and i e
  assume "i < length tx" and "bold1_at tx i = Some e"
  with bold1_at_bounds [of tx i e]
  show "((tx, allow_links, e + 1), tx, allow_links, i)
      \<in> measure (\<lambda>(tx, allow_links, i). length tx - i)" by simp
next
  fix tx :: string and allow_links :: bool and i
  assume "i < length tx"
  then show "((tx, allow_links, i + 1), tx, allow_links, i)
      \<in> measure (\<lambda>(tx, allow_links, i). length tx - i)" by simp
qed

declare render_from.simps [simp del]

definition render_inline :: "string \<Rightarrow> bool \<Rightarrow> string" where
  "render_inline text allow_links = render_from text allow_links 0"

section \<open>Termination of the renderer\<close>

text \<open>
  The same loop with a clock: every call, the next loop iteration as well as a nested
  \<^verbatim>\<open>render_inline\<close>, is given one unit less. \<open>None\<close> means the clock ran out.
\<close>

fun render_clocked :: "nat \<Rightarrow> string \<Rightarrow> bool \<Rightarrow> nat \<Rightarrow> string option" where
  "render_clocked 0 text allow_links i = None"
| "render_clocked (Suc k) text allow_links i =
     (if i < length text then
        (case link_at text allow_links i of
           Some (g1, g2, n) \<Rightarrow>
             (case render_clocked k g1 False 0 of
                None \<Rightarrow> None
              | Some link_text \<Rightarrow>
                  map_option (\<lambda>rest. anchor (esc (strip g2)) link_text @ rest)
                    (render_clocked k text allow_links (i + n)))
         | None \<Rightarrow>
            (case bold2_at text i of
               Some e \<Rightarrow>
                 (case render_clocked k (slice text (i + 2) e) allow_links 0 of
                    None \<Rightarrow> None
                  | Some inner \<Rightarrow>
                      map_option (\<lambda>rest. strong inner @ rest)
                        (render_clocked k text allow_links (e + 2)))
             | None \<Rightarrow>
                (case bold1_at text i of
                   Some e \<Rightarrow>
                     (case render_clocked k (slice text (i + 1) e) allow_links 0 of
                        None \<Rightarrow> None
                      | Some inner \<Rightarrow>
                          map_option (\<lambda>rest. strong inner @ rest)
                            (render_clocked k text allow_links (e + 1)))
                 | None \<Rightarrow>
                     map_option (\<lambda>rest. esc [text ! i] @ rest)
                       (render_clocked k text allow_links (i + 1)))))
      else Some [])"

lemma render_clocked_enough:
  "length t - i < k \<Longrightarrow> render_clocked k t allow_links i = Some (render_from t allow_links i)"
proof (induction k arbitrary: t allow_links i)
  case 0
  then show ?case by simp
next
  case (Suc k)
  show ?case
  proof (cases "i < length t")
    case False
    then show ?thesis by (simp add: render_from.simps)
  next
    case lt: True
    show ?thesis
    proof (cases "link_at t allow_links i")
      case (Some m)
      obtain g1 g2 n where m: "m = (g1, g2, n)" by (cases m) auto
      from Some m have la: "link_at t allow_links i = Some (g1, g2, n)" by simp
      from link_at_bounds [OF la] Suc.prems
      have "length g1 - 0 < k" and "length t - (i + n) < k" by simp_all
      then have "render_clocked k g1 False 0 = Some (render_from g1 False 0)"
        and "render_clocked k t allow_links (i + n) = Some (render_from t allow_links (i + n))"
        by (simp_all add: Suc.IH)
      with lt la show ?thesis by (simp add: render_from.simps [of t allow_links i])
    next
      case noLink: None
      show ?thesis
      proof (cases "bold2_at t i")
        case (Some e)
        from bold2_at_bounds [OF Some] slice_length [of t "i + 2" e] Suc.prems lt
        have "length (slice t (i + 2) e) - 0 < k" and "length t - (e + 2) < k" by simp_all
        then have "render_clocked k (slice t (i + 2) e) allow_links 0
              = Some (render_from (slice t (i + 2) e) allow_links 0)"
          and "render_clocked k t allow_links (e + 2) = Some (render_from t allow_links (e + 2))"
          by (simp_all add: Suc.IH)
        with lt noLink Some show ?thesis by (simp add: render_from.simps [of t allow_links i])
      next
        case noB2: None
        show ?thesis
        proof (cases "bold1_at t i")
          case (Some e)
          from bold1_at_bounds [OF Some] slice_length [of t "i + 1" e] Suc.prems lt
          have "length (slice t (i + 1) e) - 0 < k" and "length t - (e + 1) < k" by simp_all
          then have "render_clocked k (slice t (i + 1) e) allow_links 0
                = Some (render_from (slice t (i + 1) e) allow_links 0)"
            and "render_clocked k t allow_links (e + 1) = Some (render_from t allow_links (e + 1))"
            by (simp_all add: Suc.IH)
          with lt noLink noB2 Some show ?thesis by (simp add: render_from.simps [of t allow_links i])
        next
          case None
          from Suc.prems lt have "length t - (i + 1) < k" by simp
          then have "render_clocked k t allow_links (i + 1) = Some (render_from t allow_links (i + 1))"
            by (simp add: Suc.IH)
          with lt noLink noB2 None show ?thesis by (simp add: render_from.simps [of t allow_links i])
        qed
      qed
    qed
  qed
qed

text \<open>
  C9. The inline renderer returns on every input: a clock of one more than the length of
  the text is enough, whatever the nesting of markers, since each loop step and each
  nested call works on strictly fewer remaining characters; the value is the one the
  renderer computes.
\<close>

theorem render_inline_terminates:
  "render_clocked (Suc (length t)) t allow_links 0 = Some (render_inline t allow_links)"
  unfolding render_inline_def by (rule render_clocked_enough) simp

section \<open>Unterminated markers\<close>

text \<open>
  C1. On the input \<^verbatim>\<open>**oops\<close> the test for \<^verbatim>\<open>**\<close> finds no closing pair, and the
  test for a single \<^verbatim>\<open>*\<close> that follows takes the second asterisk of the same marker
  as the closing delimiter: the renderer emits an empty \<^verbatim>\<open><strong></strong>\<close> and
  both asterisks are lost.
\<close>

theorem render_inline_unterminated_double_star:
  \<open>render_inline ''**oops'' True = ''<strong></strong>oops''\<close>
  by code_simp

section \<open>Text without markers\<close>

text \<open>
  A text has no recognised marker when none of the three tests of the loop succeeds at
  any position. \<open>raw_free\<close> reads an output from left to right: an ampersand must start
  one of the five entities that \<^verbatim>\<open>html.escape\<close> produces, and no other character may
  be an angle bracket or a quote.
\<close>

definition no_markers :: "string \<Rightarrow> bool \<Rightarrow> bool" where
  "no_markers text allow_links =
     (\<forall>i \<in> {..<length text}.
        link_at text allow_links i = None \<and> bold2_at text i = None \<and> bold1_at text i = None)"

definition entities :: "string list" where
  "entities = [''&amp;'', ''&lt;'', ''&gt;'', ''&quot;'', ''&#x27;'']"

fun raw_free :: "string \<Rightarrow> bool" where
  "raw_free [] = True"
| "raw_free (c # cs) =
     ((if c = CHR ''&'' then list_ex (\<lambda>e. take (length e) (c # cs) = e) entities
       else c \<notin> {CHR ''<'', CHR ''>'', CHR 0x22, CHR 0x27})
      \<and> raw_free cs)"

lemma render_from_plain:
  "no_markers t allow_links \<Longrightarrow> render_from t allow_links i = esc (drop i t)"
proof (induction "length t - i" arbitrary: i)
  case 0
  then show ?case by (simp add: render_from.simps [of t allow_links i] esc_def)
next
  case (Suc k)
  then have lt: "i < length t" by simp
  with Suc.prems have "link_at t allow_links i = None" "bold2_at t i = None" "bold1_at t i = None"
    by (simp_all add: no_markers_def)
  moreover from Suc have "render_from t allow_links (i + 1) = esc (drop (i + 1) t)"
    by simp
  moreover from lt have "drop i t = t ! i # drop (i + 1) t"
    by (simp add: Cons_nth_drop_Suc)
  ultimately show ?case using lt
    by (simp add: render_from.simps [of t allow_links i] esc_def)
qed

lemma raw_free_esc_char: "raw_free s \<Longrightarrow> raw_free (esc_char c @ s)"
  by (simp add: esc_char_def entities_def)

lemma raw_free_esc: "raw_free (esc t)"
proof (induction t)
  case Nil
  then show ?case by (simp add: esc_def)
next
  case (Cons c cs)
  then have "raw_free (esc_char c @ esc cs)" by (rule raw_free_esc_char)
  then show ?case by (simp add: esc_def)
qed

text \<open>
  C6 (as amended). For a text without recognised markers the renderer returns exactly the
  escaped text, whatever HTML metacharacters it holds, and that output holds the
  metacharacters in entity form only. Rendering is a function of the text, so rendering
  the same text again gives the same result.
\<close>

theorem plain_text_escaped:
  "no_markers t allow_links \<Longrightarrow>
     render_inline t allow_links = esc t \<and> raw_free (render_inline t allow_links)"
  using render_from_plain [of t allow_links 0] raw_free_esc [of t]
  by (simp add: render_inline_def)

theorem plain_text_escaped_witness:
  \<open>no_markers ''a < b & "c" > d'' True \<and>
   render_inline ''a < b & "c" > d'' True = ''a &lt; b &amp; &quot;c&quot; &gt; d'' \<and>
   raw_free (render_inline ''a < b & "c" > d'' True)\<close>
proof -
  have h: \<open>no_markers ''a < b & "c" > d'' True\<close> by code_simp
  have e: \<open>esc ''a < b & "c" > d'' = ''a &lt; b &amp; &quot;c&quot; &gt; d''\<close> by code_simp
  from plain_text_escaped [OF h] h e show ?thesis by (auto simp del: raw_free.simps)
qed

text \<open>
  Escaping is not idempotent: the output for \<^verbatim>\<open><\<close> is \<^verbatim>\<open>&lt;\<close>, itself a text
  without markers, and escaping it once more gives \<^verbatim>\<open>&amp;lt;\<close>.
\<close>

theorem escaping_not_idempotent:
  \<open>no_markers ''<'' True \<and> no_markers (render_inline ''<'' True) True \<and>
   render_inline (render_inline ''<'' True) True \<noteq> render_inline ''<'' True\<close>
  by code_simp

section \<open>Link markers\<close>

text \<open>
  \<open>tagsafe\<close>: every \<^verbatim>\<open><\<close> of the text is followed by \<^verbatim>\<open>s\<close> or \<^verbatim>\<open>/\<close>, as in
  \<^verbatim>\<open><strong>\<close> and \<^verbatim>\<open></strong>\<close>. Such a text holds no \<^verbatim>\<open><a\<close>.
\<close>

fun tagsafe :: "string \<Rightarrow> bool" where
  "tagsafe [] = True"
| "tagsafe [c] = (c \<noteq> CHR ''<'')"
| "tagsafe (c # d # cs) =
     ((c = CHR ''<'' \<longrightarrow> d = CHR ''s'' \<or> d = CHR ''/'') \<and> tagsafe (d # cs))"

lemma tagsafe_append: "tagsafe x \<Longrightarrow> tagsafe y \<Longrightarrow> tagsafe (x @ y)"
proof (induction x rule: tagsafe.induct)
  case 1
  then show ?case by simp
next
  case (2 c)
  then show ?case by (cases y) simp_all
next
  case (3 c d cs)
  then show ?case by simp
qed

lemma tagsafe_esc_char: "tagsafe (esc_char c)"
  by (simp add: esc_char_def)

lemma tagsafe_esc: "tagsafe (esc s)"
proof (induction s)
  case Nil
  show ?case by (simp add: esc_def)
next
  case (Cons c cs)
  from tagsafe_append [OF tagsafe_esc_char Cons] show ?case by (simp add: esc_def)
qed

lemma tagsafe_strong: "tagsafe x \<Longrightarrow> tagsafe (strong x)"
proof -
  assume x: "tagsafe x"
  have a: "tagsafe ''<strong>''" and b: "tagsafe ''</strong>''" by simp_all
  from tagsafe_append [OF a tagsafe_append [OF x b]] show ?thesis
    by (simp add: strong_def)
qed

lemma tagsafe_render_from: "\<not> allow_links \<Longrightarrow> tagsafe (render_from t allow_links i)"
proof (induction t allow_links i rule: render_from.induct)
  case (1 t allow_links i)
  from "1.prems" have nl: "link_at t allow_links i = None" by (simp add: link_at_def)
  show ?case
  proof (cases "i < length t")
    case False
    then show ?thesis by (simp add: render_from.simps [of t allow_links i])
  next
    case lt: True
    show ?thesis
    proof (cases "bold2_at t i")
      case (Some e)
      from "1.IH"(4) [OF lt nl Some "1.prems"] "1.IH"(5) [OF lt nl Some "1.prems"]
      have "tagsafe (strong (render_from (slice t (i + 2) e) allow_links 0)
              @ render_from t allow_links (e + 2))"
        by (intro tagsafe_append tagsafe_strong)
      with lt nl Some show ?thesis by (simp add: render_from.simps [of t allow_links i])
    next
      case nb2: None
      show ?thesis
      proof (cases "bold1_at t i")
        case (Some e)
        from "1.IH"(2) [OF lt nl nb2 Some "1.prems"] "1.IH"(3) [OF lt nl nb2 Some "1.prems"]
        have "tagsafe (strong (render_from (slice t (i + 1) e) allow_links 0)
                @ render_from t allow_links (e + 1))"
          by (intro tagsafe_append tagsafe_strong)
        with lt nl nb2 Some show ?thesis by (simp add: render_from.simps [of t allow_links i])
      next
        case None
        from "1.IH"(1) [OF lt nl nb2 None "1.prems"] tagsafe_esc [of "[t ! i]"]
        have "tagsafe (esc [t ! i] @ render_from t allow_links (i + 1))"
          by (intro tagsafe_append)
        with lt nl nb2 None show ?thesis by (simp add: render_from.simps [of t allow_links i])
      qed
    qed
  qed
qed

lemma tagsafe_no_anchor: "tagsafe s \<Longrightarrow> find_in ''<a'' s = None"
  by (induction s rule: tagsafe.induct) auto

text \<open>
  C8. Where the link pattern matches at position \<open>i\<close> (links allowed), the renderer emits
  an anchor with \<^verbatim>\<open>target="_blank"\<close> whose href is the escaped, stripped URL and whose
  content is the link text rendered by the same renderer with links switched off; the
  scan goes on after the match. A text rendered with links switched off never holds the
  opening of an anchor, so no anchor is nested in another.
\<close>

theorem link_marker_anchor:
  assumes "link_at t True i = Some (link_text, url, n)"
  shows \<open>render_from t True i =
           ''<a href="'' @ esc (strip url) @ ''" target="_blank" rel="noopener">''
             @ render_inline link_text False @ ''</a>'' @ render_from t True (i + n)
         \<and> find_in ''<a'' (render_inline link_text False) = None\<close>
proof
  from link_at_bounds(2,3) [OF assms] have "i < length t" by simp
  with assms show \<open>render_from t True i =
           ''<a href="'' @ esc (strip url) @ ''" target="_blank" rel="noopener">''
             @ render_inline link_text False @ ''</a>'' @ render_from t True (i + n)\<close>
    by (simp add: render_from.simps [of t True i] anchor_def render_inline_def)
  show "find_in ''<a'' (render_inline link_text False) = None"
    unfolding render_inline_def by (rule tagsafe_no_anchor) (simp add: tagsafe_render_from)
qed

theorem link_marker_anchor_witness:
  \<open>link_at ''see <link:"**go** <link:x"=http://y >!'' True 4
      = Some (''**go** <link:x'', ''http://y '', 33)
   \<and> render_from ''see <link:"**go** <link:x"=http://y >!'' True 4
      = ''<a href="http://y" target="_blank" rel="noopener"><strong>go</strong> &lt;link:x</a>!''
   \<and> find_in ''<a'' (render_inline ''**go** <link:x'' False) = None\<close>
proof -
  have h: \<open>link_at ''see <link:"**go** <link:x"=http://y >!'' True 4
      = Some (''**go** <link:x'', ''http://y '', 33)\<close>
    by code_simp
  have a: \<open>esc (strip ''http://y '') = ''http://y''\<close> by code_simp
  have b: \<open>render_inline ''**go** <link:x'' False = ''<strong>go</strong> &lt;link:x''\<close>
    by code_simp
  have c: \<open>render_from ''see <link:"**go** <link:x"=http://y >!'' True (4 + 33) = ''!''\<close>
    by code_simp
  from link_marker_anchor [OF h] h show ?thesis
    unfolding a b c by simp
qed

section \<open>Lines and line patterns\<close>

text \<open>
  \<^verbatim>\<open>str.splitlines()\<close>: a line ends at a line boundary (\<^verbatim>\<open>\r\n\<close> counts once);
  the boundaries are not kept and a final boundary opens no further line.
  Every reader of the program keeps the stripped, non-empty lines only.
\<close>

definition is_linebreak :: "char \<Rightarrow> bool" where
  "is_linebreak c = (of_char c \<in> {10, 11, 12, 13, 28, 29, 30, 133 :: nat})"

function splitlines :: "string \<Rightarrow> string list" where
  "splitlines [] = []"
| "splitlines (c # cs) =
     (if is_linebreak c
      then [] # splitlines (if c = CHR 0x0D \<and> take 1 cs = [CHR 0x0A] then drop 1 cs else cs)
      else (case splitlines cs of [] \<Rightarrow> [[c]] | l # ls \<Rightarrow> (c # l) # ls))"
  by pat_completeness auto
termination
  by (relation "measure length") auto

definition nonblank_lines :: "string \<Rightarrow> string list" where
  "nonblank_lines content = filter (\<lambda>l. l \<noteq> []) (map strip (splitlines content))"

text \<open>
  \<^verbatim>\<open>re.match(r"^(.*?)\s*<([^>]+)>\s*$", text)\<close>. \<open>link_tail\<close> is the part after the
  lazy group: blanks, \<^verbatim>\<open><\<close>, a non-empty run without \<^verbatim>\<open>>\<close>, \<^verbatim>\<open>>\<close>, blanks up to
  the end. \<open>lazy_search\<close> lengthens the lazy group one character at a time (a dot does
  not match a newline) until the tail matches.
\<close>

definition link_tail :: "string \<Rightarrow> string option" where
  "link_tail s =
     (case dropWhile is_space s of
        [] \<Rightarrow> None
      | c # r \<Rightarrow>
          if c = CHR ''<'' then
            (let g = takeWhile (\<lambda>x. x \<noteq> CHR ''>'') r; r2 = drop (length g) r
             in if g \<noteq> [] \<and> take 1 r2 = ''>'' \<and> list_all is_space (drop 1 r2)
                then Some g else None)
          else None)"

fun lazy_search :: "string \<Rightarrow> string \<Rightarrow> (string \<times> string) option" where
  "lazy_search pre [] = map_option (\<lambda>g. (pre, g)) (link_tail [])"
| "lazy_search pre (c # cs) =
     (case link_tail (c # cs) of
        Some g \<Rightarrow> Some (pre, g)
      | None \<Rightarrow> if c = CHR 0x0A then None else lazy_search (pre @ [c]) cs)"

definition split_full_link :: "string \<Rightarrow> string \<times> string option" where
  "split_full_link text =
     (case lazy_search [] text of
        Some (g1, g2) \<Rightarrow> (strip g1, Some (strip g2))
      | None \<Rightarrow> (text, None))"

text \<open>Python truth of an optional string: neither \<^verbatim>\<open>None\<close> nor empty.\<close>

definition truthy :: "string option \<Rightarrow> bool" where
  "truthy u = (case u of None \<Rightarrow> False | Some s \<Rightarrow> s \<noteq> [])"

section \<open>Numbers in file names\<close>






definition endswith :: "string \<Rightarrow> string \<Rightarrow> bool" where
  "endswith s suf = (length suf \<le> length s \<and> drop (length s - length suf) s = suf)"




text \<open>The glob patterns \<^verbatim>\<open>Des*.txt\<close>, \<^verbatim>\<open>*.txt\<close> and \<^verbatim>\<open>REGISTRO*.txt\<close> on a name.\<close>

definition glob_match :: "string \<Rightarrow> string \<Rightarrow> string \<Rightarrow> bool" where
  "glob_match pre suf name =
     (length pre + length suf \<le> length name \<and> take (length pre) name = pre \<and> endswith name suf)"

section \<open>Reading a file\<close>

text \<open>
  The content of a file is a list of bytes; a byte is a \<^typ>\<open>char\<close>. The decoders of
  Python's codec library are taken as they come: \<^verbatim>\<open>utf-8-sig\<close> and \<^verbatim>\<open>cp1252\<close> may fail
  with \<^verbatim>\<open>UnicodeDecodeError\<close> (the value \<open>None\<close>), and nothing is assumed about the
  decoder of the last line, \<^verbatim>\<open>path.read_text(errors="replace")\<close>, either. \<^verbatim>\<open>latin-1\<close>
  maps every byte to the code point of the same number, so it is written out.
\<close>

type_synonym bytes = "char list"

record codecs =
  utf_8_sig :: "bytes \<Rightarrow> string option"
  cp1252 :: "bytes \<Rightarrow> string option"
  default_replace :: "bytes \<Rightarrow> string option"

definition latin_1 :: "bytes \<Rightarrow> string option" where
  "latin_1 bs = Some bs"

text \<open>The loop over the encodings: \<^verbatim>\<open>except UnicodeDecodeError: continue\<close>.\<close>

fun try_encodings :: "(bytes \<Rightarrow> string option) list \<Rightarrow> bytes \<Rightarrow> string option" where
  "try_encodings [] bs = None"
| "try_encodings (decode # rest) bs =
     (case decode bs of Some s \<Rightarrow> Some s | None \<Rightarrow> try_encodings rest bs)"

text \<open>\<open>None\<close> as the result of \<open>read_text\<close> is a \<^verbatim>\<open>UnicodeDecodeError\<close> that leaves it.\<close>

definition read_text :: "codecs \<Rightarrow> bytes \<Rightarrow> string option" where
  "read_text c bs =
     (case try_encodings [utf_8_sig c, cp1252 c, latin_1] bs of
        Some s \<Rightarrow> Some s
      | None \<Rightarrow> default_replace c bs)"

text \<open>
  C7. For every content of a file, \<open>read_text\<close> returns a text and raises no decoding
  error: it is the result of the first encoding of the list \<^verbatim>\<open>utf-8-sig\<close>, \<^verbatim>\<open>cp1252\<close>,
  \<^verbatim>\<open>latin-1\<close> that decodes the bytes. The decoding with replacement characters stands
  behind the list and is used when all three fail; as \<^verbatim>\<open>latin-1\<close> decodes every byte,
  the list never fails as a whole, whatever the other decoders do.
\<close>

theorem read_text_never_raises:
  "(\<exists>s. read_text c bs = Some s)
   \<and> read_text c bs
       = (case utf_8_sig c bs of
            Some s \<Rightarrow> Some s
          | None \<Rightarrow> (case cp1252 c bs of Some s \<Rightarrow> Some s | None \<Rightarrow> Some bs))
   \<and> read_text c bs
       = (case try_encodings [utf_8_sig c, cp1252 c, latin_1] bs of
            Some s \<Rightarrow> Some s
          | None \<Rightarrow> default_replace c bs)"
  by (simp add: read_text_def latin_1_def split: option.split)

section \<open>The content directory\<close>

text \<open>
  The directory \<^verbatim>\<open>content\<close> as the program reads it: its regular files by name, each with
  the text that \<^verbatim>\<open>read_text\<close> returns for it, in the order the directory lists them;
  the files of \<^verbatim>\<open>content/Despegables\<close>; the entries of \<^verbatim>\<open>content/Botones\<close>, each a
  file or a directory of files; and whether the two hero images exist. \<open>None\<close> stands
  for a directory that does not exist.
\<close>

datatype entry = File string | Dir "(string \<times> string) list"

record content =
  files :: "(string \<times> string) list"
  despegables :: "(string \<times> string) list option"
  botones :: "(string \<times> entry) list option"
  png_exists :: bool
  jpg_exists :: bool



record button =
  btn_order :: nat
  btn_title :: string
  btn_text :: string


record beneficiarios =
  ben_title :: string
  ben_lead :: string
  ben_lines :: "string list"
  ben_button :: string

record registro =
  reg_title :: string
  reg_lines :: "string list"
  reg_buttons :: "string list"

definition read_file :: "content \<Rightarrow> string \<Rightarrow> string option" where
  "read_file root name = map_of (files root) name"

fun join :: "string \<Rightarrow> string list \<Rightarrow> string" where
  "join sep [] = []"
| "join sep [x] = x"
| "join sep (x # y # ys) = x @ sep @ join sep (y # ys)"




section \<open>The content loader\<close>










definition parse_beneficiarios :: "content \<Rightarrow> beneficiarios option" where
  "parse_beneficiarios root =
     (case read_file root ''BENEFICIARIOS.txt'' of
        None \<Rightarrow> None
      | Some content \<Rightarrow>
          (let lines = nonblank_lines content
           in if lines = [] then None
              else (let button_line = (if length lines > 2 then last lines else []);
                        lines = (if length lines > 2 then butlast lines else lines)
                    in Some \<lparr>ben_title = ''BENEFICIARIOS'', ben_lead = hd lines,
                              ben_lines = tl lines, ben_button = button_line\<rparr>)))"

text \<open>
  \<^verbatim>\<open>path.stem\<close> of a name that ends in \<^verbatim>\<open>.txt\<close>, as every match of the pattern
  \<^verbatim>\<open>REGISTRO*.txt\<close> does.
\<close>

definition stem :: "string \<Rightarrow> string" where
  "stem name = take (length name - 4) name"

definition registro_matches :: "content \<Rightarrow> (string \<times> string) list" where
  "registro_matches root =
     sort_key fst (filter (\<lambda>f. glob_match ''REGISTRO'' ''.txt'' (fst f)) (files root))"

definition parse_registro :: "content \<Rightarrow> registro option" where
  "parse_registro root =
     (case registro_matches root of
        [] \<Rightarrow> None
      | f # _ \<Rightarrow>
          (let lines = nonblank_lines (snd f)
           in if lines = [] then None
              else Some \<lparr>reg_title = stem (fst f), reg_lines = take 1 lines,
                         reg_buttons = drop 1 lines\<rparr>))"





section \<open>Footer links to sections\<close>




definition contains :: "string \<Rightarrow> string \<Rightarrow> bool" where
  "contains sub s = (find_in sub s \<noteq> None)"




section \<open>The page renderer\<close>


definition beneficiarios_button :: "string \<Rightarrow> string" where
  \<open>beneficiarios_button button =
     (if button \<noteq> [] then
        (case split_full_link button of
           (button_text, button_url) \<Rightarrow>
             (let button_label = render_inline button_text True
              in if truthy button_url
                 then ''<a class="beneficiarios-button" href="'' @ esc (the button_url) @ ''" ''
                      @ ''target="_blank" rel="noopener">''
                      @ button_label @ ''</a>''
                 else []))
      else [])\<close>

definition beneficiarios_html :: "beneficiarios option \<Rightarrow> string" where
  \<open>beneficiarios_html b =
     (case b of
        None \<Rightarrow> []
      | Some ben \<Rightarrow>
          (let lead_html = render_inline (ben_lead ben) True;
               extra_lines =
                 join ''\<newline>''
                   (map (\<lambda>line. ''<p>'' @ render_inline line True @ ''</p>'') (ben_lines ben));
               button_html = beneficiarios_button (ben_button ben)
           in ''<section class="beneficiarios" data-animate="3">''
              @ ''<div class="beneficiarios-text">''
              @ ''<p class="beneficiarios-title">'' @ esc (ben_title ben) @ ''</p>''
              @ ''<p class="beneficiarios-lead">'' @ lead_html @ ''</p>''
              @ extra_lines
              @ button_html
              @ ''</div>''
              @ ''<div class="beneficiarios-map">''
              @ ''<img src="assets/img/mapa.png" alt="Mapa">''
              @ ''</div>''
              @ ''</section>''))\<close>

definition registro_button :: "string \<Rightarrow> string list" where
  \<open>registro_button line =
     (case split_full_link line of
        (button_text, button_url) \<Rightarrow>
          (let button_label = render_inline button_text True
           in if truthy button_url
              then [''<a class="registro-button" href="'' @ esc (the button_url) @ ''" ''
                    @ ''target="_blank" rel="noopener">''
                    @ button_label @ ''</a>'']
              else []))\<close>

definition registro_buttons_html :: "string list \<Rightarrow> string" where
  \<open>registro_buttons_html buttons =
     (if buttons \<noteq> [] then
        (let registro_buttons = concat (map registro_button buttons)
         in if registro_buttons \<noteq> []
            then ''<div class="registro-buttons">'' @ concat registro_buttons @ ''</div>''
            else [])
      else [])\<close>

definition registro_html :: "registro option \<Rightarrow> string" where
  \<open>registro_html r =
     (case r of
        None \<Rightarrow> []
      | Some reg \<Rightarrow>
          (let line_html =
                 join ''\<newline>''
                   (map (\<lambda>line. ''<p>'' @ render_inline line True @ ''</p>'') (reg_lines reg));
               button_html = registro_buttons_html (reg_buttons reg)
           in ''<section class="registro-band" data-animate="3">''
              @ ''<div class="registro">''
              @ ''<div class="registro-media">''
              @ ''<img src="assets/img/plataforma.png" alt="Plataforma">''
              @ ''</div>''
              @ ''<div class="registro-text">''
              @ ''<p class="registro-title">'' @ esc (reg_title reg) @ ''</p>''
              @ line_html
              @ button_html
              @ ''</div>''
              @ ''</div>''
              @ ''</section>''))\<close>










section \<open>The template\<close>

text \<open>
  The literal text of the template that \<^verbatim>\<open>build_html\<close> returns, cut at the places where
  a value is inserted. \<open>style_sheet\<close> is the content of the \<^verbatim>\<open>style\<close> element and
  \<open>page_script\<close> that of the \<^verbatim>\<open>script\<close> element.
\<close>

definition tpl_open :: string where
  \<open>tpl_open =
     concat
      [''<!doctype html>\<newline>'',
       ''<html lang="es">\<newline>'',
       ''<head>\<newline>'',
       ''  <meta charset="utf-8">\<newline>'',
       ''  <meta name="viewport" content="width=device-width, initial-scale=1">\<newline>'',
       ''  <meta http-equiv="Cache-Control" content="no-cache, no-store, must-revalidate">\<newline>'',
       ''  <meta http-equiv="Pragma" content="no-cache">\<newline>'',
       ''  <meta http-equiv="Expires" content="0">\<newline>'',
       ''  <title>'']\<close>

definition tpl_style_open :: string where
  \<open>tpl_style_open =
     concat
      [''</title>\<newline>'',
       ''  <style>'']\<close>

definition style_sheet :: string where
  \<open>style_sheet =
     concat
      [''\<newline>'',
       ''    @import url('' @ [CHR 0x27] @ ''https://fonts.googleapis.com/css2?family=Marcellus&family=Work+Sans:wght@300;500;700&display=swap'' @ [CHR 0x27] @ '');\<newline>'',
       ''\<newline>'',
       ''    * { box-sizing: border-box; }\<newline>'',
       ''\<newline>'',
       ''    body {\<newline>'',
       ''      margin: 0;\<newline>'',
       ''      font-family: "Work Sans", "Segoe UI", sans-serif;\<newline>'',
       ''      min-height: 100vh;\<newline>'',
       ''    }\<newline>'',
       ''\<newline>'',
       ''    .page {\<newline>'',
       ''      max-width: 1100px;\<newline>'',
       ''      margin: 0 auto;\<newline>'',
       ''      padding: 48px 24px 0;\<newline>'',
       ''    }\<newline>'',
       ''\<newline>'',
       ''    .page-header {\<newline>'',
       ''      display: flex;\<newline>'',
       ''      align-items: flex-start;\<newline>'',
       ''      justify-content: space-between;\<newline>'',
       ''      gap: 24px;\<newline>'',
       ''    }\<newline>'',
       ''\<newline>'',
       ''    .logo {\<newline>'',
       ''      width: 120px;\<newline>'',
       ''      height: auto;\<newline>'',
       ''      object-fit: contain;\<newline>'',
       ''    }\<newline>'',
       ''\<newline>'',
       ''    .eyebrow {\<newline>'',
       ''      text-transform: uppercase;\<newline>'',
       ''      letter-spacing: 0.32em;\<newline>'',
       ''      font-size: 12px;\<newline>'',
       ''      margin: 0 0 12px;\<newline>'',
       ''    }\<newline>'',
       ''\<newline>'',
       ''    h1 {\<newline>'',
       ''      font-family: "Marcellus", "Georgia", serif;\<newline>'',
       ''      font-weight: 400;\<newline>'',
       ''      font-size: clamp(32px, 4vw, 52px);\<newline>'',
       ''      margin: 0 0 12px;\<newline>'',
       ''    }\<newline>'',
       ''\<newline>'',
       ''    .subtitle {\<newline>'',
       ''      margin: 0;\<newline>'',
       ''      font-size: clamp(16px, 2.3vw, 22px);\<newline>'',
       ''      max-width: 560px;\<newline>'',
       ''      line-height: 1.5;\<newline>'',
       ''    }\<newline>'',
       ''\<newline>'',
       ''    .hero-band {\<newline>'',
       ''      width: 100vw;\<newline>'',
       ''      margin-left: calc(50% - 50vw);\<newline>'',
       ''      margin-right: calc(50% - 50vw);\<newline>'',
       ''      margin-top: 36px;\<newline>'',
       ''      margin-bottom: 28px;\<newline>'',
       ''      background: url("assets/img/Fondos/principal.png") center/cover no-repeat;\<newline>'',
       ''      padding: 24px 0;\<newline>'',
       ''    }\<newline>'',
       ''\<newline>'',
       ''    .hero {\<newline>'',
       ''      max-width: 1100px;\<newline>'',
       ''      margin: 0 auto;\<newline>'',
       ''      padding: 0 24px;\<newline>'',
       ''      overflow: hidden;\<newline>'',
       ''      position: relative;\<newline>'',
       ''    }\<newline>'',
       ''\<newline>'',
       ''    .hero img {\<newline>'',
       ''      width: 100%;\<newline>'',
       ''      height: 100%;\<newline>'',
       ''      display: block;\<newline>'',
       ''      object-fit: cover;\<newline>'',
       ''    }\<newline>'',
       ''\<newline>'',
       ''    .body-text {\<newline>'',
       ''      padding: 24px 28px;\<newline>'',
       ''      line-height: 1.6;\<newline>'',
       ''      text-align: justify;\<newline>'',
       ''    }\<newline>'',
       ''\<newline>'',
       ''    .body-text p {\<newline>'',
       ''      margin: 0 0 22px;\<newline>'',
       ''      font-size: 18px;\<newline>'',
       ''      line-height: 1.7;\<newline>'',
       ''    }\<newline>'',
       ''\<newline>'',
       ''    .section-divider {\<newline>'',
       ''      height: 10px;\<newline>'',
       ''      background: #777777;\<newline>'',
       ''      width: 100%;\<newline>'',
       ''      margin: 16px 0 24px;\<newline>'',
       ''    }\<newline>'',
       ''\<newline>'',
       ''    .beneficiarios {\<newline>'',
       ''      display: flex;\<newline>'',
       ''      gap: 28px;\<newline>'',
       ''      align-items: flex-start;\<newline>'',
       ''      margin-top: 32px;\<newline>'',
       ''    }\<newline>'',
       ''\<newline>'',
       ''    .beneficiarios-text {\<newline>'',
       ''      flex: 1;\<newline>'',
       ''      min-width: 0;\<newline>'',
       ''    }\<newline>'',
       ''\<newline>'',
       ''    .beneficiarios-title {\<newline>'',
       ''      margin: 0 0 10px;\<newline>'',
       ''      text-transform: uppercase;\<newline>'',
       ''      letter-spacing: 0.18em;\<newline>'',
       ''      font-size: 22px;\<newline>'',
       ''      font-weight: 600;\<newline>'',
       ''    }\<newline>'',
       ''\<newline>'',
       ''    .beneficiarios-lead {\<newline>'',
       ''      margin: 0 0 12px;\<newline>'',
       ''      font-size: 32px;\<newline>'',
       ''      font-weight: 700;\<newline>'',
       ''    }\<newline>'',
       ''\<newline>'',
       ''    .beneficiarios-text p {\<newline>'',
       ''      margin: 0 0 16px;\<newline>'',
       ''      font-size: 18px;\<newline>'',
       ''      line-height: 1.7;\<newline>'',
       ''    }\<newline>'',
       ''\<newline>'',
       ''    .beneficiarios-text .beneficiarios-lead {\<newline>'',
       ''      font-size: 40px;\<newline>'',
       ''    }\<newline>'',
       ''\<newline>'',
       ''    .beneficiarios-map {\<newline>'',
       ''      flex: 1;\<newline>'',
       ''      min-width: 220px;\<newline>'',
       ''      max-width: 360px;\<newline>'',
       ''    }\<newline>'',
       ''\<newline>'',
       ''    .beneficiarios-map img {\<newline>'',
       ''      width: 75%;\<newline>'',
       ''      height: auto;\<newline>'',
       ''      display: block;\<newline>'',
       ''      margin-right: auto;\<newline>'',
       ''    }\<newline>'',
       ''\<newline>'',
       ''    .beneficiarios-button {\<newline>'',
       ''      display: inline-block;\<newline>'',
       ''      margin-top: 10px;\<newline>'',
       ''      padding: 10px 16px;\<newline>'',
       ''      border: 1px solid #b8c1cc;\<newline>'',
       ''      border-radius: 6px;\<newline>'',
       ''      font-size: 18px;\<newline>'',
       ''      font-weight: 600;\<newline>'',
       ''      background: #777777;\<newline>'',
       ''      color: #ffffff;\<newline>'',
       ''    }\<newline>'',
       ''\<newline>'',
       ''    .registro-band {\<newline>'',
       ''      width: 100vw;\<newline>'',
       ''      margin-left: calc(50% - 50vw);\<newline>'',
       ''      margin-right: calc(50% - 50vw);\<newline>'',
       ''      margin-top: 32px;\<newline>'',
       ''      background: url("assets/img/Fondos/plataforma.png") center/cover no-repeat;\<newline>'',
       ''      padding: 24px 0;\<newline>'',
       ''    }\<newline>'',
       ''\<newline>'',
       ''    .registro {\<newline>'',
       ''      display: flex;\<newline>'',
       ''      gap: 28px;\<newline>'',
       ''      align-items: stretch;\<newline>'',
       ''      max-width: 1100px;\<newline>'',
       ''      margin: 0 auto;\<newline>'',
       ''      padding: 0 24px;\<newline>'',
       ''    }\<newline>'',
       ''\<newline>'',
       ''    .registro-media {\<newline>'',
       ''      flex: 1;\<newline>'',
       ''      min-width: 330px;\<newline>'',
       ''      max-width: 540px;\<newline>'',
       ''      display: flex;\<newline>'',
       ''      justify-content: center;\<newline>'',
       ''      align-items: stretch;\<newline>'',
       ''    }\<newline>'',
       ''\<newline>'',
       ''    .registro-media img {\<newline>'',
       ''      width: 100%;\<newline>'',
       ''      height: 100%;\<newline>'',
       ''      display: block;\<newline>'',
       ''      object-fit: contain;\<newline>'',
       ''      margin: auto;\<newline>'',
       ''    }\<newline>'',
       ''\<newline>'',
       ''    .registro-text {\<newline>'',
       ''      flex: 1.2;\<newline>'',
       ''      min-width: 0;\<newline>'',
       ''      display: flex;\<newline>'',
       ''      flex-direction: column;\<newline>'',
       ''      justify-content: center;\<newline>'',
       ''    }\<newline>'',
       ''\<newline>'',
       ''    .registro-title {\<newline>'',
       ''      margin: 0 0 10px;\<newline>'',
       ''      text-transform: uppercase;\<newline>'',
       ''      letter-spacing: 0.18em;\<newline>'',
       ''      font-size: 22px;\<newline>'',
       ''      font-weight: 600;\<newline>'',
       ''      color: #ffffff;\<newline>'',
       ''    }\<newline>'',
       ''\<newline>'',
       ''    .registro-text p {\<newline>'',
       ''      margin: 0 0 16px;\<newline>'',
       ''      font-size: 18px;\<newline>'',
       ''      line-height: 1.7;\<newline>'',
       ''      color: #ffffff;\<newline>'',
       ''    }\<newline>'',
       ''\<newline>'',
       ''    .registro-button {\<newline>'',
       ''      display: inline-block;\<newline>'',
       ''      margin-top: 10px;\<newline>'',
       ''      padding: 10px 16px;\<newline>'',
       ''      border: 1px solid #b8c1cc;\<newline>'',
       ''      border-radius: 6px;\<newline>'',
       ''      font-size: 18px;\<newline>'',
       ''      font-weight: 600;\<newline>'',
       ''      text-align: center;\<newline>'',
       ''      background: #ffffff;\<newline>'',
       ''      color: #ba3034;\<newline>'',
       ''    }\<newline>'',
       ''\<newline>'',
       ''    .registro-buttons {\<newline>'',
       ''      display: flex;\<newline>'',
       ''      flex-wrap: wrap;\<newline>'',
       ''      gap: 10px;\<newline>'',
       ''      margin-top: 10px;\<newline>'',
       ''    }\<newline>'',
       ''\<newline>'',
       ''    .contacto {\<newline>'',
       ''      margin-top: 54px;\<newline>'',
       ''      text-align: center;\<newline>'',
       ''      background: #575556;\<newline>'',
       ''      color: #ffffff;\<newline>'',
       ''      padding: 24px 16px;\<newline>'',
       ''      width: 100vw;\<newline>'',
       ''      margin-left: calc(50% - 50vw);\<newline>'',
       ''      margin-right: calc(50% - 50vw);\<newline>'',
       ''    }\<newline>'',
       ''\<newline>'',
       ''    .contacto p {\<newline>'',
       ''      margin: 0 0 10px;\<newline>'',
       ''      font-size: 18px;\<newline>'',
       ''      line-height: 1.6;\<newline>'',
       ''      color: #ffffff;\<newline>'',
       ''    }\<newline>'',
       ''\<newline>'',
       ''    .redes-icons {\<newline>'',
       ''      display: flex;\<newline>'',
       ''      justify-content: center;\<newline>'',
       ''      gap: 14px;\<newline>'',
       ''      margin-top: 12px;\<newline>'',
       ''      flex-wrap: wrap;\<newline>'',
       ''    }\<newline>'',
       ''\<newline>'',
       ''    .redes-icons img {\<newline>'',
       ''      width: 36px;\<newline>'',
       ''      height: 36px;\<newline>'',
       ''      display: block;\<newline>'',
       ''      object-fit: contain;\<newline>'',
       ''    }\<newline>'',
       ''\<newline>'',
       ''    .indicator-section {\<newline>'',
       ''      margin-top: 32px;\<newline>'',
       ''    }\<newline>'',
       ''\<newline>'',
       ''    .indicator-group {\<newline>'',
       ''      margin-bottom: 24px;\<newline>'',
       ''    }\<newline>'',
       ''\<newline>'',
       ''    .indicator-heading {\<newline>'',
       ''      margin: 0 0 14px;\<newline>'',
       ''      font-size: 22px;\<newline>'',
       ''      font-weight: 700;\<newline>'',
       ''      text-transform: uppercase;\<newline>'',
       ''      letter-spacing: 0.14em;\<newline>'',
       ''    }\<newline>'',
       ''\<newline>'',
       ''    .indicator-row {\<newline>'',
       ''      display: grid;\<newline>'',
       ''      grid-template-columns: repeat(auto-fit, minmax(220px, 1fr));\<newline>'',
       ''      gap: 18px;\<newline>'',
       ''    }\<newline>'',
       ''\<newline>'',
       ''    .indicator-card {\<newline>'',
       ''      aspect-ratio: 1 / 1;\<newline>'',
       ''      border: 1px solid #d7dbe2;\<newline>'',
       ''      border-radius: 16px;\<newline>'',
       ''      padding: 18px;\<newline>'',
       ''      display: flex;\<newline>'',
       ''      flex-direction: column;\<newline>'',
       ''      align-items: center;\<newline>'',
       ''      justify-content: center;\<newline>'',
       ''      text-align: center;\<newline>'',
       ''      gap: 10px;\<newline>'',
       ''    }\<newline>'',
       ''\<newline>'',
       ''    .indicator-icon {\<newline>'',
       ''      width: 64px;\<newline>'',
       ''      height: 64px;\<newline>'',
       ''      object-fit: contain;\<newline>'',
       ''    }\<newline>'',
       ''\<newline>'',
       ''    .indicator-title {\<newline>'',
       ''      margin: 0;\<newline>'',
       ''      font-size: 20px;\<newline>'',
       ''      font-weight: 700;\<newline>'',
       ''    }\<newline>'',
       ''\<newline>'',
       ''    .indicator-text {\<newline>'',
       ''      margin: 0;\<newline>'',
       ''      font-size: 16px;\<newline>'',
       ''      line-height: 1.5;\<newline>'',
       ''    }\<newline>'',
       ''\<newline>'',
       ''    .indicator-footer {\<newline>'',
       ''      margin: 12px 0 0;\<newline>'',
       ''      font-size: 16px;\<newline>'',
       ''      line-height: 1.6;\<newline>'',
       ''    }\<newline>'',
       ''\<newline>'',
       ''    .indicator-link {\<newline>'',
       ''      font-weight: 600;\<newline>'',
       ''    }\<newline>'',
       ''\<newline>'',
       ''    .sections {\<newline>'',
       ''      margin-top: 36px;\<newline>'',
       ''    }\<newline>'',
       ''\<newline>'',
       ''    .accordion {\<newline>'',
       ''      display: flex;\<newline>'',
       ''      flex-direction: column;\<newline>'',
       ''      gap: 14px;\<newline>'',
       ''      width: min(100%, 920px);\<newline>'',
       ''      margin: 0 auto;\<newline>'',
       ''    }\<newline>'',
       ''\<newline>'',
       ''    .sec-btn {\<newline>'',
       ''      border: none;\<newline>'',
       ''      padding: 14px 22px;\<newline>'',
       ''      border-radius: 16px;\<newline>'',
       ''      font-size: 20px;\<newline>'',
       ''      font-weight: 600;\<newline>'',
       ''      cursor: pointer;\<newline>'',
       ''      width: 100%;\<newline>'',
       ''      display: flex;\<newline>'',
       ''      align-items: center;\<newline>'',
       ''      justify-content: space-between;\<newline>'',
       ''      gap: 16px;\<newline>'',
       ''      text-align: left;\<newline>'',
       ''      transition: transform 0.2s ease, box-shadow 0.2s ease, background 0.2s ease;\<newline>'',
       ''    }\<newline>'',
       ''\<newline>'',
       ''    .sec-btn:hover {\<newline>'',
       ''      transform: translateY(-2px);\<newline>'',
       ''      box-shadow: 0 10px 24px rgba(15, 58, 74, 0.15);\<newline>'',
       ''    }\<newline>'',
       ''\<newline>'',
       ''    .sec-arrow {\<newline>'',
       ''      display: inline-flex;\<newline>'',
       ''      align-items: center;\<newline>'',
       ''      justify-content: center;\<newline>'',
       ''      width: 28px;\<newline>'',
       ''      height: 28px;\<newline>'',
       ''      border-radius: 50%;\<newline>'',
       ''      font-size: 18px;\<newline>'',
       ''      transition: transform 0.2s ease;\<newline>'',
       ''    }\<newline>'',
       ''\<newline>'',
       ''    .sec-btn.is-active .sec-arrow {\<newline>'',
       ''      transform: rotate(90deg);\<newline>'',
       ''    }\<newline>'',
       ''\<newline>'',
       ''    .sec-panel {\<newline>'',
       ''      display: none;\<newline>'',
       ''      padding: 24px;\<newline>'',
       ''      animation: fadeUp 0.4s ease;\<newline>'',
       ''    }\<newline>'',
       ''\<newline>'',
       ''    .sec-panel.is-active {\<newline>'',
       ''      display: block;\<newline>'',
       ''    }\<newline>'',
       ''\<newline>'',
       ''    .sec-panel ul {\<newline>'',
       ''      list-style: none;\<newline>'',
       ''      padding: 0;\<newline>'',
       ''      margin: 0;\<newline>'',
       ''      display: grid;\<newline>'',
       ''      gap: 10px;\<newline>'',
       ''    }\<newline>'',
       ''\<newline>'',
       ''    .sec-panel li {\<newline>'',
       ''      padding: 3px 8px;\<newline>'',
       ''      font-size: 18px;\<newline>'',
       ''      line-height: 1.7;\<newline>'',
       ''    }\<newline>'',
       ''\<newline>'',
       ''    .sec-panel a {\<newline>'',
       ''      color: #1a5fb4;\<newline>'',
       ''      text-decoration: none;\<newline>'',
       ''      font-weight: 600;\<newline>'',
       ''    }\<newline>'',
       ''\<newline>'',
       ''    a {\<newline>'',
       ''      text-decoration: none;\<newline>'',
       ''    }\<newline>'',
       ''\<newline>'',
       ''\<newline>'',
       ''    [data-animate] {\<newline>'',
       ''      opacity: 0;\<newline>'',
       ''      transform: translateY(14px);\<newline>'',
       ''      transition: opacity 0.6s ease, transform 0.6s ease;\<newline>'',
       ''    }\<newline>'',
       ''\<newline>'',
       ''    body.is-ready [data-animate] {\<newline>'',
       ''      opacity: 1;\<newline>'',
       ''      transform: translateY(0);\<newline>'',
       ''    }\<newline>'',
       ''\<newline>'',
       ''    body.is-ready [data-animate="2"] {\<newline>'',
       ''      transition-delay: 0.08s;\<newline>'',
       ''    }\<newline>'',
       ''\<newline>'',
       ''    body.is-ready [data-animate="3"] {\<newline>'',
       ''      transition-delay: 0.16s;\<newline>'',
       ''    }\<newline>'',
       ''\<newline>'',
       ''    @keyframes fadeUp {\<newline>'',
       ''      from { opacity: 0; transform: translateY(10px); }\<newline>'',
       ''      to { opacity: 1; transform: translateY(0); }\<newline>'',
       ''    }\<newline>'',
       ''\<newline>'',
       ''    @media (max-width: 800px) {\<newline>'',
       ''      .page-header {\<newline>'',
       ''        flex-direction: column;\<newline>'',
       ''        align-items: flex-start;\<newline>'',
       ''      }\<newline>'',
       ''\<newline>'',
       ''      .logo {\<newline>'',
       ''        align-self: flex-end;\<newline>'',
       ''      }\<newline>'',
       ''\<newline>'',
       ''      .beneficiarios {\<newline>'',
       ''        flex-direction: column;\<newline>'',
       ''      }\<newline>'',
       ''\<newline>'',
       ''      .registro {\<newline>'',
       ''        flex-direction: column;\<newline>'',
       ''      }\<newline>'',
       ''    }\<newline>'',
       ''  '']\<close>

definition tpl_header :: string where
  \<open>tpl_header =
     concat
      [''</style>\<newline>'',
       ''</head>\<newline>'',
       ''<body>\<newline>'',
       ''  <div class="page">\<newline>'',
       ''    <header class="page-header" data-animate="1">\<newline>'',
       ''      <div>\<newline>'',
       ''        <p class="eyebrow">'']\<close>

definition tpl_h1 :: string where
  \<open>tpl_h1 =
     concat
      [''</p>\<newline>'',
       ''        <h1>'']\<close>

definition tpl_subtitle :: string where
  \<open>tpl_subtitle =
     concat
      [''</h1>\<newline>'',
       ''        <p class="subtitle">'']\<close>

definition tpl_hero :: string where
  \<open>tpl_hero =
     concat
      [''</p>\<newline>'',
       ''      </div>\<newline>'',
       ''      <a class="logo-link" href="https://www.onsv.gob.pe/" target="_blank" rel="noopener">\<newline>'',
       ''        <img class="logo" src="assets/img/logos/logo-onsv.png" alt="Logo ONSV">\<newline>'',
       ''      </a>\<newline>'',
       ''    </header>\<newline>'',
       ''\<newline>'',
       ''    <section class="hero-band" data-animate="2">\<newline>'',
       ''      <div class="hero">\<newline>'',
       ''        <img src="'']\<close>

definition tpl_body :: string where
  \<open>tpl_body =
     concat
      [''" alt="Imagen principal">\<newline>'',
       ''      </div>\<newline>'',
       ''    </section>\<newline>'',
       ''\<newline>'',
       ''    <section class="body-text" data-animate="3">\<newline>'',
       ''      '']\<close>

definition tpl_divider :: string where
  \<open>tpl_divider =
     concat
      [''\<newline>'',
       ''    </section>\<newline>'',
       ''\<newline>'',
       ''    <div class="section-divider" aria-hidden="true"></div>\<newline>'',
       ''\<newline>'',
       ''    '']\<close>

definition tpl_gap :: string where
  \<open>tpl_gap =
     concat
      [''\<newline>'',
       ''\<newline>'',
       ''    '']\<close>

definition tpl_sections :: string where
  \<open>tpl_sections =
     concat
      [''\<newline>'',
       ''\<newline>'',
       ''    <section class="sections" data-animate="3">\<newline>'',
       ''      <div class="accordion">\<newline>'',
       ''        '']\<close>

definition tpl_sections_end :: string where
  \<open>tpl_sections_end =
     concat
      [''\<newline>'',
       ''      </div>\<newline>'',
       ''    </section>\<newline>'',
       ''\<newline>'',
       ''    '']\<close>

definition tpl_script_open :: string where
  \<open>tpl_script_open =
     concat
      [''\<newline>'',
       ''  </div>\<newline>'',
       ''\<newline>'',
       ''  <script>'']\<close>

definition page_script :: string where
  \<open>page_script =
     concat
      [''\<newline>'',
       ''    const buttons = Array.from(document.querySelectorAll('' @ [CHR 0x27] @ ''.sec-btn'' @ [CHR 0x27] @ ''));\<newline>'',
       ''    const panels = Array.from(document.querySelectorAll('' @ [CHR 0x27] @ ''.sec-panel'' @ [CHR 0x27] @ ''));\<newline>'',
       ''\<newline>'',
       ''    function closeAll() {\<newline>'',
       ''      panels.forEach(panel => {\<newline>'',
       ''        panel.classList.remove('' @ [CHR 0x27] @ ''is-active'' @ [CHR 0x27] @ '');\<newline>'',
       ''        panel.setAttribute('' @ [CHR 0x27] @ ''aria-hidden'' @ [CHR 0x27] @ '', '' @ [CHR 0x27] @ ''true'' @ [CHR 0x27] @ '');\<newline>'',
       ''      });\<newline>'',
       ''      buttons.forEach(button => {\<newline>'',
       ''        button.classList.remove('' @ [CHR 0x27] @ ''is-active'' @ [CHR 0x27] @ '');\<newline>'',
       ''        button.setAttribute('' @ [CHR 0x27] @ ''aria-expanded'' @ [CHR 0x27] @ '', '' @ [CHR 0x27] @ ''false'' @ [CHR 0x27] @ '');\<newline>'',
       ''      });\<newline>'',
       ''    }\<newline>'',
       ''\<newline>'',
       ''    function openById(targetId) {\<newline>'',
       ''      const panel = document.getElementById(targetId);\<newline>'',
       ''      if (!panel) return;\<newline>'',
       ''      closeAll();\<newline>'',
       ''      panel.classList.add('' @ [CHR 0x27] @ ''is-active'' @ [CHR 0x27] @ '');\<newline>'',
       ''      panel.setAttribute('' @ [CHR 0x27] @ ''aria-hidden'' @ [CHR 0x27] @ '', '' @ [CHR 0x27] @ ''false'' @ [CHR 0x27] @ '');\<newline>'',
       ''      const button = buttons.find(btn => btn.dataset.target === targetId);\<newline>'',
       ''      if (button) {\<newline>'',
       ''        button.classList.add('' @ [CHR 0x27] @ ''is-active'' @ [CHR 0x27] @ '');\<newline>'',
       ''        button.setAttribute('' @ [CHR 0x27] @ ''aria-expanded'' @ [CHR 0x27] @ '', '' @ [CHR 0x27] @ ''true'' @ [CHR 0x27] @ '');\<newline>'',
       ''      }\<newline>'',
       ''      panel.scrollIntoView({ behavior: '' @ [CHR 0x27] @ ''smooth'' @ [CHR 0x27] @ '', block: '' @ [CHR 0x27] @ ''start'' @ [CHR 0x27] @ '' });\<newline>'',
       ''    }\<newline>'',
       ''\<newline>'',
       ''    buttons.forEach(button => {\<newline>'',
       ''      button.addEventListener('' @ [CHR 0x27] @ ''click'' @ [CHR 0x27] @ '', () => {\<newline>'',
       ''        const targetId = button.dataset.target;\<newline>'',
       ''        const panel = document.getElementById(targetId);\<newline>'',
       ''        const willOpen = !panel.classList.contains('' @ [CHR 0x27] @ ''is-active'' @ [CHR 0x27] @ '');\<newline>'',
       ''        closeAll();\<newline>'',
       ''        if (willOpen) {\<newline>'',
       ''          panel.classList.add('' @ [CHR 0x27] @ ''is-active'' @ [CHR 0x27] @ '');\<newline>'',
       ''          panel.setAttribute('' @ [CHR 0x27] @ ''aria-hidden'' @ [CHR 0x27] @ '', '' @ [CHR 0x27] @ ''false'' @ [CHR 0x27] @ '');\<newline>'',
       ''          button.classList.add('' @ [CHR 0x27] @ ''is-active'' @ [CHR 0x27] @ '');\<newline>'',
       ''          button.setAttribute('' @ [CHR 0x27] @ ''aria-expanded'' @ [CHR 0x27] @ '', '' @ [CHR 0x27] @ ''true'' @ [CHR 0x27] @ '');\<newline>'',
       ''        }\<newline>'',
       ''      });\<newline>'',
       ''    });\<newline>'',
       ''\<newline>'',
       ''    document.querySelectorAll('' @ [CHR 0x27] @ ''[data-open]'' @ [CHR 0x27] @ '').forEach(link => {\<newline>'',
       ''      link.addEventListener('' @ [CHR 0x27] @ ''click'' @ [CHR 0x27] @ '', event => {\<newline>'',
       ''        const targetId = link.getAttribute('' @ [CHR 0x27] @ ''data-open'' @ [CHR 0x27] @ '');\<newline>'',
       ''        if (targetId) {\<newline>'',
       ''          event.preventDefault();\<newline>'',
       ''          openById(targetId);\<newline>'',
       ''        }\<newline>'',
       ''      });\<newline>'',
       ''    });\<newline>'',
       ''\<newline>'',
       ''    window.addEventListener('' @ [CHR 0x27] @ ''load'' @ [CHR 0x27] @ '', () => {\<newline>'',
       ''      document.body.classList.add('' @ [CHR 0x27] @ ''is-ready'' @ [CHR 0x27] @ '');\<newline>'',
       ''    });\<newline>'',
       ''  '']\<close>

definition tpl_close :: string where
  \<open>tpl_close =
     concat
      [''</script>\<newline>'',
       ''</body>\<newline>'',
       ''</html>\<newline>'']\<close>

text \<open>The template, as a function of the values inserted into it.\<close>

record inserted =
  ins_page_title :: string
  ins_header :: string
  ins_title :: string
  ins_subtitle :: string
  ins_hero_src :: string
  ins_body :: string
  ins_beneficiarios :: string
  ins_buttons :: string
  ins_registro :: string
  ins_accordion :: string
  ins_contacto :: string

definition page :: "inserted \<Rightarrow> string" where
  "page v =
     tpl_open @ ins_page_title v @ tpl_style_open @ style_sheet @ tpl_header @ ins_header v
     @ tpl_h1 @ ins_title v @ tpl_subtitle @ ins_subtitle v @ tpl_hero @ ins_hero_src v
     @ tpl_body @ ins_body v @ tpl_divider @ ins_beneficiarios v @ tpl_gap @ ins_buttons v
     @ tpl_gap @ ins_registro v @ tpl_sections @ ins_accordion v @ tpl_sections_end
     @ ins_contacto v @ tpl_script_open @ page_script @ tpl_close"


section \<open>The beneficiary block\<close>

text \<open>
  C10. When \<^verbatim>\<open>BENEFICIARIOS.txt\<close> has three or more non-blank lines and the last one
  carries no \<^verbatim>\<open><url>\<close> suffix, the last line is taken out of the paragraph lines as the
  button line, yields no button, and the rendered block is built from the other lines
  only: the text of the last line occurs nowhere in it.
\<close>

theorem beneficiarios_last_line_dropped:
  assumes "read_file root ''BENEFICIARIOS.txt'' = Some content"
    and "nonblank_lines content = ls @ [l]"
    and "2 \<le> length ls"
    and "snd (split_full_link l) = None"
  shows \<open>parse_beneficiarios root
           = Some \<lparr>ben_title = ''BENEFICIARIOS'', ben_lead = hd ls, ben_lines = tl ls,
                    ben_button = l\<rparr>
         \<and> beneficiarios_html (parse_beneficiarios root)
           = ''<section class="beneficiarios" data-animate="3"><div class="beneficiarios-text">''
             @ ''<p class="beneficiarios-title">BENEFICIARIOS</p>''
             @ ''<p class="beneficiarios-lead">'' @ render_inline (hd ls) True @ ''</p>''
             @ join ''\<newline>'' (map (\<lambda>line. ''<p>'' @ render_inline line True @ ''</p>'') (tl ls))
             @ ''</div><div class="beneficiarios-map"><img src="assets/img/mapa.png" alt="Mapa">''
             @ ''</div></section>''\<close>
proof -
  have p: \<open>parse_beneficiarios root
           = Some \<lparr>ben_title = ''BENEFICIARIOS'', ben_lead = hd ls, ben_lines = tl ls,
                    ben_button = l\<rparr>\<close>
    using assms(1-3) by (simp add: parse_beneficiarios_def Let_def)
  have b: "beneficiarios_button l = []"
    using assms(4) by (cases "split_full_link l") (simp add: beneficiarios_button_def truthy_def)
  have e: "esc ''BENEFICIARIOS'' = ''BENEFICIARIOS''"
    by (simp add: esc_def esc_char_def)
  show ?thesis
    unfolding p by (simp add: beneficiarios_html_def b e)
qed

theorem beneficiarios_last_line_dropped_witness:
  \<open>read_file
      \<lparr>files = [(''BENEFICIARIOS.txt'', ''Lead\<newline>\<newline>second *line*\<newline>last words\<newline>'')],
       despegables = None, botones = None, png_exists = False, jpg_exists = False\<rparr>
      ''BENEFICIARIOS.txt''
     = Some ''Lead\<newline>\<newline>second *line*\<newline>last words\<newline>''
   \<and> nonblank_lines ''Lead\<newline>\<newline>second *line*\<newline>last words\<newline>''
     = [''Lead'', ''second *line*''] @ [''last words'']
   \<and> snd (split_full_link ''last words'') = None
   \<and> beneficiarios_html (parse_beneficiarios
       \<lparr>files = [(''BENEFICIARIOS.txt'', ''Lead\<newline>\<newline>second *line*\<newline>last words\<newline>'')],
        despegables = None, botones = None, png_exists = False, jpg_exists = False\<rparr>)
     = ''<section class="beneficiarios" data-animate="3"><div class="beneficiarios-text">''
       @ ''<p class="beneficiarios-title">BENEFICIARIOS</p>''
       @ ''<p class="beneficiarios-lead">Lead</p>''
       @ ''<p>second <strong>line</strong></p>''
       @ ''</div><div class="beneficiarios-map"><img src="assets/img/mapa.png" alt="Mapa">''
       @ ''</div></section>''\<close>
proof -
  let ?c = \<open>''Lead\<newline>\<newline>second *line*\<newline>last words\<newline>''\<close>
  let ?r = \<open>\<lparr>files = [(''BENEFICIARIOS.txt'', ?c)],
       despegables = None, botones = None, png_exists = False, jpg_exists = False\<rparr>\<close>
  have h1: \<open>read_file ?r ''BENEFICIARIOS.txt'' = Some ?c\<close>
    by (simp add: read_file_def)
  have h2: \<open>nonblank_lines ?c = [''Lead'', ''second *line*''] @ [''last words'']\<close>
    by code_simp
  have h3: \<open>2 \<le> length [''Lead'', ''second *line*'']\<close> by simp
  have h4: \<open>snd (split_full_link ''last words'') = None\<close> by code_simp
  have r1: \<open>render_inline ''Lead'' True = ''Lead''\<close> by code_simp
  have r2: \<open>render_inline ''second *line*'' True = ''second <strong>line</strong>''\<close> by code_simp
  have \<open>beneficiarios_html (parse_beneficiarios ?r)
     = ''<section class="beneficiarios" data-animate="3"><div class="beneficiarios-text">''
       @ ''<p class="beneficiarios-title">BENEFICIARIOS</p>''
       @ ''<p class="beneficiarios-lead">'' @ render_inline (hd [''Lead'', ''second *line*'']) True
       @ ''</p>''
       @ join ''\<newline>'' (map (\<lambda>line. ''<p>'' @ render_inline line True @ ''</p>'')
           (tl [''Lead'', ''second *line*'']))
       @ ''</div><div class="beneficiarios-map"><img src="assets/img/mapa.png" alt="Mapa">''
       @ ''</div></section>''\<close>
    using beneficiarios_last_line_dropped [OF h1 h2 h3 h4] by (rule conjunct2)
  then have \<open>beneficiarios_html (parse_beneficiarios ?r)
     = ''<section class="beneficiarios" data-animate="3"><div class="beneficiarios-text">''
       @ ''<p class="beneficiarios-title">BENEFICIARIOS</p>''
       @ ''<p class="beneficiarios-lead">Lead</p>''
       @ ''<p>second <strong>line</strong></p>''
       @ ''</div><div class="beneficiarios-map"><img src="assets/img/mapa.png" alt="Mapa">''
       @ ''</div></section>''\<close>
    by (simp add: r1 r2)
  with h1 h2 h4 show ?thesis by blast
qed

section \<open>The registration block\<close>

text \<open>
  C2 (as amended). Of the files whose names match \<^verbatim>\<open>REGISTRO*.txt\<close>, sorted by name,
  the first is read. When it has a non-blank line, the title element of the block (class
  \<^verbatim>\<open>registro-title\<close>) holds the stem of the file name, the first non-blank line of the
  file is the paragraph right under that title, and every other non-blank line is split
  as \<^verbatim>\<open>text <url>\<close>: a line with a URL gives a button, a line without one gives nothing.
\<close>

theorem registro_heading_and_buttons:
  assumes "registro_matches root = f # rest"
    and "nonblank_lines (snd f) = l # ls"
  shows \<open>parse_registro root
           = Some \<lparr>reg_title = stem (fst f), reg_lines = [l], reg_buttons = ls\<rparr>
         \<and> registro_html (parse_registro root)
           = ''<section class="registro-band" data-animate="3"><div class="registro">''
             @ ''<div class="registro-media"><img src="assets/img/plataforma.png" alt="Plataforma">''
             @ ''</div><div class="registro-text">''
             @ ''<p class="registro-title">'' @ esc (stem (fst f)) @ ''</p>''
             @ ''<p>'' @ render_inline l True @ ''</p>''
             @ (if concat (map registro_button ls) = [] then []
                else ''<div class="registro-buttons">''
                     @ concat (concat (map registro_button ls)) @ ''</div>'')
             @ ''</div></div></section>''
         \<and> (\<forall>line \<in> set ls.
               registro_button line
                 = (if truthy (snd (split_full_link line))
                    then [''<a class="registro-button" href="''
                          @ esc (the (snd (split_full_link line)))
                          @ ''" target="_blank" rel="noopener">''
                          @ render_inline (fst (split_full_link line)) True @ ''</a>'']
                    else []))\<close>
proof -
  have p: \<open>parse_registro root
           = Some \<lparr>reg_title = stem (fst f), reg_lines = [l], reg_buttons = ls\<rparr>\<close>
    using assms by (simp add: parse_registro_def Let_def)
  have b: \<open>registro_buttons_html ls
      = (if concat (map registro_button ls) = [] then []
         else ''<div class="registro-buttons">''
              @ concat (concat (map registro_button ls)) @ ''</div>'')\<close>
    by (cases ls) (simp_all add: registro_buttons_html_def Let_def)
  have h: \<open>registro_html (parse_registro root)
           = ''<section class="registro-band" data-animate="3"><div class="registro">''
             @ ''<div class="registro-media"><img src="assets/img/plataforma.png" alt="Plataforma">''
             @ ''</div><div class="registro-text">''
             @ ''<p class="registro-title">'' @ esc (stem (fst f)) @ ''</p>''
             @ ''<p>'' @ render_inline l True @ ''</p>''
             @ (if concat (map registro_button ls) = [] then []
                else ''<div class="registro-buttons">''
                     @ concat (concat (map registro_button ls)) @ ''</div>'')
             @ ''</div></div></section>''\<close>
    unfolding p b [symmetric] by (simp add: registro_html_def)
  have q: \<open>registro_button line
                 = (if truthy (snd (split_full_link line))
                    then [''<a class="registro-button" href="''
                          @ esc (the (snd (split_full_link line)))
                          @ ''" target="_blank" rel="noopener">''
                          @ render_inline (fst (split_full_link line)) True @ ''</a>'']
                    else [])\<close> for line
    by (cases "split_full_link line") (simp add: registro_button_def Let_def)
  from p h q show ?thesis by blast
qed

theorem registro_heading_and_buttons_witness:
  \<open>registro_matches
      \<lparr>files = [(''Titulo.txt'', ''T''), (''REGISTROb.txt'', ''other''),
                (''REGISTRO.txt'', ''  Inscribete **ya**\<newline>\<newline>Entrar <http://x>\<newline>sin enlace\<newline>'')],
       despegables = None, botones = None, png_exists = False, jpg_exists = False\<rparr>
     = (''REGISTRO.txt'', ''  Inscribete **ya**\<newline>\<newline>Entrar <http://x>\<newline>sin enlace\<newline>'')
         # [(''REGISTROb.txt'', ''other'')]
   \<and> nonblank_lines ''  Inscribete **ya**\<newline>\<newline>Entrar <http://x>\<newline>sin enlace\<newline>''
     = ''Inscribete **ya**'' # [''Entrar <http://x>'', ''sin enlace'']
   \<and> registro_html (parse_registro
       \<lparr>files = [(''Titulo.txt'', ''T''), (''REGISTROb.txt'', ''other''),
                 (''REGISTRO.txt'', ''  Inscribete **ya**\<newline>\<newline>Entrar <http://x>\<newline>sin enlace\<newline>'')],
        despegables = None, botones = None, png_exists = False, jpg_exists = False\<rparr>)
     = ''<section class="registro-band" data-animate="3"><div class="registro">''
       @ ''<div class="registro-media"><img src="assets/img/plataforma.png" alt="Plataforma">''
       @ ''</div><div class="registro-text">''
       @ ''<p class="registro-title">REGISTRO</p>''
       @ ''<p>Inscribete <strong>ya</strong></p>''
       @ ''<div class="registro-buttons">''
       @ ''<a class="registro-button" href="http://x" target="_blank" rel="noopener">Entrar</a>''
       @ ''</div>''
       @ ''</div></div></section>''\<close>
proof -
  let ?c = \<open>''  Inscribete **ya**\<newline>\<newline>Entrar <http://x>\<newline>sin enlace\<newline>''\<close>
  let ?f = \<open>(''REGISTRO.txt'', ?c)\<close>
  let ?r = \<open>\<lparr>files = [(''Titulo.txt'', ''T''), (''REGISTROb.txt'', ''other''), ?f],
       despegables = None, botones = None, png_exists = False, jpg_exists = False\<rparr>\<close>
  have h1: \<open>registro_matches ?r = ?f # [(''REGISTROb.txt'', ''other'')]\<close>
    by code_simp
  have h2': \<open>nonblank_lines ?c = ''Inscribete **ya**'' # [''Entrar <http://x>'', ''sin enlace'']\<close>
    by code_simp
  then have h2: \<open>nonblank_lines (snd ?f)
      = ''Inscribete **ya**'' # [''Entrar <http://x>'', ''sin enlace'']\<close>
    by simp
  have e1: \<open>esc (stem (fst ?f)) = ''REGISTRO''\<close> by code_simp
  have e2: \<open>render_inline ''Inscribete **ya**'' True = ''Inscribete <strong>ya</strong>''\<close>
    by code_simp
  have e3: \<open>concat (map registro_button [''Entrar <http://x>'', ''sin enlace''])
      = [''<a class="registro-button" href="http://x" target="_blank" rel="noopener">Entrar</a>'']\<close>
    by code_simp
  have \<open>registro_html (parse_registro ?r)
           = ''<section class="registro-band" data-animate="3"><div class="registro">''
             @ ''<div class="registro-media"><img src="assets/img/plataforma.png" alt="Plataforma">''
             @ ''</div><div class="registro-text">''
             @ ''<p class="registro-title">'' @ esc (stem (fst ?f)) @ ''</p>''
             @ ''<p>'' @ render_inline ''Inscribete **ya**'' True @ ''</p>''
             @ (if concat (map registro_button [''Entrar <http://x>'', ''sin enlace'']) = [] then []
                else ''<div class="registro-buttons">''
                     @ concat (concat (map registro_button [''Entrar <http://x>'', ''sin enlace'']))
                     @ ''</div>'')
             @ ''</div></div></section>''\<close>
    using registro_heading_and_buttons [OF h1 h2] by blast
  then have \<open>registro_html (parse_registro ?r)
     = ''<section class="registro-band" data-animate="3"><div class="registro">''
       @ ''<div class="registro-media"><img src="assets/img/plataforma.png" alt="Plataforma">''
       @ ''</div><div class="registro-text">''
       @ ''<p class="registro-title">REGISTRO</p>''
       @ ''<p>Inscribete <strong>ya</strong></p>''
       @ ''<div class="registro-buttons">''
       @ ''<a class="registro-button" href="http://x" target="_blank" rel="noopener">Entrar</a>''
       @ ''</div>''
       @ ''</div></div></section>''\<close>
    unfolding e1 e2 e3 by simp
  with h1 h2' show ?thesis by blast
qed

text \<open>
  The element that heads the block is the title, and it shows the name of the file, not
  its first line: for a file \<^verbatim>\<open>REGISTRO.txt\<close> whose first non-blank line is
  \<^verbatim>\<open>Inscribete\<close> the title reads \<^verbatim>\<open>REGISTRO\<close> and the line follows as a paragraph.
\<close>

theorem registro_title_is_file_stem:
  \<open>registro_matches
      \<lparr>files = [(''REGISTRO.txt'', ''Inscribete\<newline>Entrar <http://x>\<newline>'')],
       despegables = None, botones = None, png_exists = False, jpg_exists = False\<rparr>
     = [(''REGISTRO.txt'', ''Inscribete\<newline>Entrar <http://x>\<newline>'')]
   \<and> nonblank_lines ''Inscribete\<newline>Entrar <http://x>\<newline>''
     = [''Inscribete'', ''Entrar <http://x>'']
   \<and> map_option reg_title (parse_registro
        \<lparr>files = [(''REGISTRO.txt'', ''Inscribete\<newline>Entrar <http://x>\<newline>'')],
         despegables = None, botones = None, png_exists = False, jpg_exists = False\<rparr>)
     = Some ''REGISTRO''
   \<and> ''REGISTRO'' \<noteq> ''Inscribete''
   \<and> registro_html (parse_registro
        \<lparr>files = [(''REGISTRO.txt'', ''Inscribete\<newline>Entrar <http://x>\<newline>'')],
         despegables = None, botones = None, png_exists = False, jpg_exists = False\<rparr>)
     = ''<section class="registro-band" data-animate="3"><div class="registro">''
       @ ''<div class="registro-media"><img src="assets/img/plataforma.png" alt="Plataforma">''
       @ ''</div><div class="registro-text">''
       @ ''<p class="registro-title">REGISTRO</p>''
       @ ''<p>Inscribete</p>''
       @ ''<div class="registro-buttons">''
       @ ''<a class="registro-button" href="http://x" target="_blank" rel="noopener">Entrar</a>''
       @ ''</div>''
       @ ''</div></div></section>''\<close>
  by code_simp

section \<open>The accordion\<close>








section \<open>Resolution of footer labels\<close>








section \<open>Sections without source data\<close>














end
